theory Spec2Isabelle
  imports Main
begin

section \<open>The Navigator orchestrator (navigator/orchestrator.py)\<close>

text \<open>
  The class \<open>Navigator\<close> sequences calls to collaborators that live outside the file:
  the task planner, the web navigator, the semantic indexer, the Ollama client and the code
  assistant. Each collaborator call is modelled as a function on an abstract world \<open>'w\<close>
  that returns either a raised exception (\<open>Inl\<close>) or a value (\<open>Inr\<close>) together with the
  world it leaves behind. The orchestrator itself is a program that, started in a world,
  yields its outcome, the final world and the list of calls it made, in order.
\<close>

subsection \<open>Values, records and exceptions\<close>

text \<open>A Python exception object; the orchestrator raises none of its own and never
  looks inside one.\<close>

datatype exn = Exn string

text \<open>Modelled from the spec: the values a metadata mapping may hold (the semantic
  indexer that produces them is not part of the file). A dictionary is a value too.\<close>

datatype pyvalue = PyNone | PyBool bool | PyInt int | PyStr string
  | PyDict "string \<Rightarrow> pyvalue option"

text \<open>Modelled from the spec: a Memory Record is a dictionary with the keys \<open>text\<close>
  (a string) and \<open>metadata\<close> (a mapping from strings to values); the orchestrator reads
  both with \<open>dict.get\<close>, so either key may be absent (\<open>None\<close> below). The \<open>score\<close>
  key is never read here and is left out.\<close>

record memory_record =
  mem_text :: "string option"
  mem_metadata :: "(string \<rightharpoonup> pyvalue) option"

text \<open>Modelled from the spec: the Ollama client's reply is a dictionary whose
  \<open>response\<close> key, when present, holds a string.\<close>

record inference_response =
  response :: "string option"

text \<open>The calls the orchestrator makes, with their arguments, and what it prints.\<close>

datatype 'a event =
    Print string
  | CreateDetailedPlan string "string option" string "'a list"
  | NavigateAndLearn string string
  | SearchMemory string int
  | GenerateText string string
  | GenerateCode string
  | CloseBrowser

text \<open>The collaborators. The three attributes of the web navigator are plain reads of
  its live state; every method may raise and may change the world. The last field is the
  \<open>print\<close> method of the module's rich \<open>Console\<close>: it renders console markup and
  raises, for instance, on a closing tag that matches no open tag.\<close>

record ('w, 'a) collaborators =
  current_url :: "'w \<Rightarrow> string option"
  page_content :: "'w \<Rightarrow> string"
  captured_apis :: "'w \<Rightarrow> 'a list"
  create_detailed_plan ::
    "string \<Rightarrow> string option \<Rightarrow> string \<Rightarrow> 'a list \<Rightarrow> 'w \<Rightarrow> (exn + string) \<times> 'w"
  navigate_and_learn :: "string \<Rightarrow> string \<Rightarrow> 'w \<Rightarrow> (exn + unit) \<times> 'w"
  close_browser :: "'w \<Rightarrow> (exn + unit) \<times> 'w"
  search_memory :: "string \<Rightarrow> int \<Rightarrow> 'w \<Rightarrow> (exn + memory_record list) \<times> 'w"
  generate_text :: "string \<Rightarrow> string \<Rightarrow> 'w \<Rightarrow> (exn + inference_response) \<times> 'w"
  generate_code :: "string \<Rightarrow> 'w \<Rightarrow> (exn + string) \<times> 'w"
  rich_print :: "string \<Rightarrow> 'w \<Rightarrow> (exn + unit) \<times> 'w"

subsection \<open>Programs: outcome, world and call log\<close>

type_synonym ('w, 'a, 'x) prog = "'w \<Rightarrow> (exn + 'x) \<times> 'w \<times> 'a event list"

definition outcome :: "(exn + 'x) \<times> 'w \<times> 'a event list \<Rightarrow> exn + 'x" where
  "outcome r = fst r"

definition final_world :: "(exn + 'x) \<times> 'w \<times> 'a event list \<Rightarrow> 'w" where
  "final_world r = fst (snd r)"

definition events :: "(exn + 'x) \<times> 'w \<times> 'a event list \<Rightarrow> 'a event list" where
  "events r = snd (snd r)"

definition return :: "'x \<Rightarrow> ('w, 'a, 'x) prog" where
  "return x w = (Inr x, w, [])"

text \<open>An awaited collaborator call: the call is logged, then it returns or raises.\<close>

definition call :: "'a event \<Rightarrow> ('w \<Rightarrow> (exn + 'x) \<times> 'w) \<Rightarrow> ('w, 'a, 'x) prog" where
  "call ev f w = (case f w of (r, w') \<Rightarrow> (r, w', [ev]))"

text \<open>Statement sequencing: an exception in the first statement skips the rest.\<close>

definition and_then :: "('w, 'a, 'x) prog \<Rightarrow> ('x \<Rightarrow> ('w, 'a, 'y) prog) \<Rightarrow> ('w, 'a, 'y) prog" where
  "and_then m f w =
     (case m w of
        (Inl e, w1, evs1) \<Rightarrow> (Inl e, w1, evs1)
      | (Inr x, w1, evs1) \<Rightarrow>
          (case f x w1 of (r, w2, evs2) \<Rightarrow> (r, w2, evs1 @ evs2)))"

text \<open>Python's \<open>try: body finally: fin\<close>. The \<open>finally\<close> suite runs whatever the body
  did. If it raises, that exception is the one that leaves the statement; otherwise the
  body's outcome stands (its exception is re-raised, or control goes on).\<close>

definition try_finally :: "('w, 'a, 'x) prog \<Rightarrow> ('w, 'a, unit) prog \<Rightarrow> ('w, 'a, 'x) prog" where
  "try_finally body fin w =
     (case body w of
        (r, w1, evs1) \<Rightarrow>
          (case fin w1 of
             (Inl e, w2, evs2) \<Rightarrow> (Inl e, w2, evs1 @ evs2)
           | (Inr u, w2, evs2) \<Rightarrow> (r, w2, evs1 @ evs2)))"

text \<open>\<open>console.print(s)\<close>: a call like the others; it is logged, then it returns or
  raises.\<close>

definition console_print :: "('w, 'a) collaborators \<Rightarrow> string \<Rightarrow> ('w, 'a, unit) prog" where
  "console_print env s = call (Print s) (rich_print env s)"

subsection \<open>String formatting\<close>

definition newline :: string where
  "newline = [CHR 0x0A]"

text \<open>The two characters backslash and n, as the prompt's \<open>\\n\<close> writes them.\<close>

definition backslash_n :: string where
  "backslash_n = [CHR 0x5C, CHR ''n'']"

definition apostrophe :: string where
  "apostrophe = [CHR 0x27]"

text \<open>Decimal rendering of a number inside an f-string.\<close>

fun str_nat :: "nat \<Rightarrow> string" where
  "str_nat n =
     (if n < 10 then [''0123456789'' ! n]
      else str_nat (n div 10) @ [''0123456789'' ! (n mod 10)])"

declare str_nat.simps [simp del]

subsection \<open>\<open>summarize_results\<close>\<close>

text \<open>\<open>m.get('metadata', {}).get('type') == 'api_request'\<close>\<close>

definition is_api_request :: "memory_record \<Rightarrow> bool" where
  "is_api_request m =
     (let md = (case mem_metadata m of None \<Rightarrow> Map.empty | Some d \<Rightarrow> d);
          ty = (case md ''type'' of None \<Rightarrow> PyNone | Some v \<Rightarrow> v)
      in ty = PyStr ''api_request'')"

text \<open>\<open>api.get('text', '')[:200]\<close>\<close>

definition excerpt :: "memory_record \<Rightarrow> string" where
  "excerpt api = take 200 (case mem_text api of None \<Rightarrow> [] | Some t \<Rightarrow> t)"

text \<open>The loop \<open>for i, api in enumerate(api_memories): api_info += ...\<close>, with the
  counter \<open>i\<close> and the accumulator \<open>api_info\<close> as arguments.\<close>

fun api_info_loop :: "nat \<Rightarrow> memory_record list \<Rightarrow> string \<Rightarrow> string" where
  "api_info_loop i [] api_info = api_info"
| "api_info_loop i (api # rest) api_info =
     api_info_loop (i + 1) rest
       (api_info @ str_nat (i + 1) @ ''. '' @ excerpt api @ ''...'' @ newline)"

definition format_api_info :: "memory_record list \<Rightarrow> string" where
  "format_api_info api_memories =
     (if api_memories \<noteq> [] then api_info_loop 0 api_memories (''APIs discovered:'' @ newline)
      else [])"

definition build_prompt :: "string \<Rightarrow> string \<Rightarrow> string" where
  "build_prompt user_goal api_info =
     ''You are Hermes-3, an expert AI assistant skilled at summarizing information. ''
     @ ''Summarize what was learned while pursuing this web automation goal: ''
     @ apostrophe @ user_goal @ apostrophe @ ''.'' @ backslash_n @ backslash_n
     @ ''Context:'' @ backslash_n
     @ api_info @ backslash_n
     @ ''Focus your summary on these key aspects:'' @ backslash_n
     @ ''1. What was the primary outcome or accomplishment related to the goal?'' @ backslash_n
     @ ''2. What specific API patterns, request structures, or key UI elements were discovered or interacted with?'' @ backslash_n
     @ ''3. What insights or learned patterns could be useful for future automation tasks related to this website or goal?'' @ backslash_n
     @ ''Keep the summary concise and informative.''"

definition summarize_results :: "('w, 'a) collaborators \<Rightarrow> string \<Rightarrow> ('w, 'a, string) prog" where
  "summarize_results env user_goal =
     and_then (call (SearchMemory user_goal 10) (search_memory env user_goal 10))
       (\<lambda>memories.
          let api_memories = filter is_api_request memories;
              api_info = format_api_info api_memories;
              prompt = build_prompt user_goal api_info
          in and_then (call (GenerateText prompt ''general'') (generate_text env prompt ''general''))
               (\<lambda>resp. return (case response resp of
                                   None \<Rightarrow> ''No summary available.''
                                 | Some text \<Rightarrow> text)))"

subsection \<open>Lines 106 to 113 on arbitrary Python values\<close>

text \<open>\<open>summarize_results\<close> above takes the records as the specification types them. What
  the two expressions of lines 106 and 113 do on any Python value is written out here:
  \<open>.get\<close> exists on dictionaries only, and only a string is sliced to a string.\<close>

fun py_get :: "pyvalue \<Rightarrow> string \<Rightarrow> pyvalue \<Rightarrow> exn + pyvalue" where
  "py_get (PyDict d) k dflt = Inr (case d k of None \<Rightarrow> dflt | Some v \<Rightarrow> v)"
| "py_get _ k dflt = Inl (Exn ''AttributeError'')"

text \<open>\<open>m.get('metadata', {}).get('type') == 'api_request'\<close>\<close>

definition raw_is_api_request :: "pyvalue \<Rightarrow> exn + bool" where
  "raw_is_api_request m =
     (case py_get m ''metadata'' (PyDict Map.empty) of
        Inl e \<Rightarrow> Inl e
      | Inr md \<Rightarrow>
          (case py_get md ''type'' PyNone of
             Inl e \<Rightarrow> Inl e
           | Inr ty \<Rightarrow> Inr (ty = PyStr ''api_request'')))"

text \<open>The comprehension of line 106: the first record whose test raises ends it.\<close>

fun raw_api_memories :: "pyvalue list \<Rightarrow> exn + pyvalue list" where
  "raw_api_memories [] = Inr []"
| "raw_api_memories (m # memories) =
     (case raw_is_api_request m of
        Inl e \<Rightarrow> Inl e
      | Inr keep \<Rightarrow>
          (case raw_api_memories memories of
             Inl e \<Rightarrow> Inl e
           | Inr kept \<Rightarrow> Inr (if keep then m # kept else kept)))"

text \<open>\<open>v[:200]\<close>: a string gives its first 200 characters; \<open>None\<close>, a number or a
  dictionary cannot be sliced (a \<open>TypeError\<close>; for a dictionary Python 3.12 reports a
  \<open>KeyError\<close> instead, which makes no difference below).\<close>

fun py_slice_200 :: "pyvalue \<Rightarrow> exn + string" where
  "py_slice_200 (PyStr t) = Inr (take 200 t)"
| "py_slice_200 _ = Inl (Exn ''TypeError'')"

text \<open>\<open>api.get('text', '')[:200]\<close>\<close>

definition raw_excerpt :: "pyvalue \<Rightarrow> exn + string" where
  "raw_excerpt api =
     (case py_get api ''text'' (PyStr []) of
        Inl e \<Rightarrow> Inl e
      | Inr v \<Rightarrow> py_slice_200 v)"

fun raw_api_info_loop :: "nat \<Rightarrow> pyvalue list \<Rightarrow> string \<Rightarrow> exn + string" where
  "raw_api_info_loop i [] api_info = Inr api_info"
| "raw_api_info_loop i (api # rest) api_info =
     (case raw_excerpt api of
        Inl e \<Rightarrow> Inl e
      | Inr x \<Rightarrow>
          raw_api_info_loop (i + 1) rest
            (api_info @ str_nat (i + 1) @ ''. '' @ x @ ''...'' @ newline))"

definition raw_format_api_info :: "pyvalue list \<Rightarrow> exn + string" where
  "raw_format_api_info api_memories =
     (if api_memories \<noteq> [] then raw_api_info_loop 0 api_memories (''APIs discovered:'' @ newline)
      else Inr [])"

text \<open>Lines 106 to 113 as a whole: from the search result to \<open>api_info\<close>.\<close>

definition raw_api_info :: "pyvalue list \<Rightarrow> exn + string" where
  "raw_api_info memories =
     (case raw_api_memories memories of
        Inl e \<Rightarrow> Inl e
      | Inr api_memories \<Rightarrow> raw_format_api_info api_memories)"

text \<open>A record typed as in the specification, as the Python dictionary it is.\<close>

definition to_py :: "memory_record \<Rightarrow> pyvalue" where
  "to_py m =
     PyDict (\<lambda>k. if k = ''text'' then map_option PyStr (mem_text m)
                  else if k = ''metadata'' then map_option PyDict (mem_metadata m)
                  else None)"

subsection \<open>\<open>perform_web_goal\<close>\<close>

text \<open>The four f-strings handed to \<open>console.print\<close> (lines 63, 77, 84 and 90).\<close>

definition received_message :: "string \<Rightarrow> string" where
  "received_message user_goal =
     ''Navigator (Orchestrator) received web goal: [bold green]'' @ user_goal @ ''[/bold green]''"

definition plan_message :: "string \<Rightarrow> string" where
  "plan_message detailed_plan =
     ''Detailed plan from Orchestrator:'' @ newline @ ''[yellow]'' @ detailed_plan @ ''[/yellow]''"

definition summary_message :: "string \<Rightarrow> string" where
  "summary_message summary =
     ''Summary of learnings:'' @ newline @ ''[cyan]'' @ summary @ ''[/cyan]''"

definition finished_message :: "string \<Rightarrow> string" where
  "finished_message user_goal =
     ''Navigator (Orchestrator) finished web goal: [bold green]'' @ user_goal @ ''[/bold green]''"

text \<open>Step 3 (lines 82 to 84): summarize, then print the summary.\<close>

definition summarizing :: "('w, 'a) collaborators \<Rightarrow> string \<Rightarrow> ('w, 'a, unit) prog" where
  "summarizing env user_goal =
     and_then (summarize_results env user_goal)
       (\<lambda>summary. console_print env (summary_message summary))"

text \<open>The suite of the \<open>try\<close> statement: planning, executing, summarizing.\<close>

definition pipeline :: "('w, 'a) collaborators \<Rightarrow> string \<Rightarrow> ('w, 'a, unit) prog" where
  "pipeline env user_goal w =
     (let cur = current_url env w;
          page = page_content env w;
          api_history = captured_apis env w
      in and_then
           (call (CreateDetailedPlan user_goal cur page api_history)
              (create_detailed_plan env user_goal cur page api_history))
           (\<lambda>detailed_plan.
              and_then
                (console_print env (plan_message detailed_plan))
                (\<lambda>_. and_then
                   (call (NavigateAndLearn user_goal detailed_plan)
                      (navigate_and_learn env user_goal detailed_plan))
                   (\<lambda>_. summarizing env user_goal)))
           w)"

text \<open>The first print stands before the \<open>try\<close> statement, the last one after it.\<close>

definition perform_web_goal :: "('w, 'a) collaborators \<Rightarrow> string \<Rightarrow> ('w, 'a, unit) prog" where
  "perform_web_goal env user_goal =
     and_then
       (console_print env (received_message user_goal))
       (\<lambda>_. and_then
          (try_finally (pipeline env user_goal) (call CloseBrowser (close_browser env)))
          (\<lambda>_. console_print env (finished_message user_goal)))"

subsection \<open>The pass-through accessors\<close>

definition api_search :: "('w, 'a) collaborators \<Rightarrow> string \<Rightarrow> ('w, 'a, memory_record list) prog" where
  "api_search env query = call (SearchMemory query 5) (search_memory env query 5)"

definition generate_code_for_task :: "('w, 'a) collaborators \<Rightarrow> string \<Rightarrow> ('w, 'a, string) prog" where
  "generate_code_for_task env task_description =
     call (GenerateCode task_description) (generate_code env task_description)"

subsection \<open>Classifying logged calls\<close>

fun is_close :: "'a event \<Rightarrow> bool" where
  "is_close CloseBrowser = True"
| "is_close _ = False"

text \<open>The call of the EXECUTING step.\<close>

fun is_executing :: "'a event \<Rightarrow> bool" where
  "is_executing (NavigateAndLearn _ _) = True"
| "is_executing _ = False"

text \<open>The calls \<open>summarize_results\<close> makes: the memory search and the text generation.\<close>

fun is_summarizing :: "'a event \<Rightarrow> bool" where
  "is_summarizing (SearchMemory _ _) = True"
| "is_summarizing (GenerateText _ _) = True"
| "is_summarizing _ = False"

subsection \<open>\<open>Navigator.__init__\<close>\<close>

text \<open>Objects live in a store and are named by their address, so that two fields
  holding the same instance hold the same address. A constructor call allocates one
  object that remembers the arguments it was given.\<close>

type_synonym ref = nat

text \<open>The bound method \<open>self._get_db_session_for_navigator\<close> handed to the web
  navigator.\<close>

datatype db_session_factory = GetDbSessionForNavigator

datatype obj =
    SeleniumManager bool
  | CodeAssistant ref
  | TaskPlanner ref
  | APIReverseEngineer ref
  | SemanticIndexer ref
  | WebNavigator ref ref db_session_factory

type_synonym store = "obj list"

definition new :: "obj \<Rightarrow> store \<Rightarrow> ref \<times> store" where
  "new ob h = (length h, h @ [ob])"

fun is_selenium_manager :: "obj \<Rightarrow> bool" where
  "is_selenium_manager (SeleniumManager _) = True"
| "is_selenium_manager _ = False"

fun is_web_navigator :: "obj \<Rightarrow> bool" where
  "is_web_navigator (WebNavigator _ _ _) = True"
| "is_web_navigator _ = False"

record navigator =
  ollama_client :: ref
  selenium_manager :: ref
  code_assistant :: ref
  planner :: ref
  api_reverse_engineer :: ref
  semantic_indexer :: ref
  web_navigator :: ref

text \<open>\<open>__init__(self, ollama_client, selenium_manager=None)\<close>: the second argument is
  \<open>None\<close> or the address of a manager the caller built.\<close>

definition init :: "ref \<Rightarrow> ref option \<Rightarrow> store \<Rightarrow> navigator \<times> store" where
  "init client sm_arg h =
     (case (case sm_arg of
              None \<Rightarrow> new (SeleniumManager False) h
            | Some r \<Rightarrow> (r, h)) of (sm, h1) \<Rightarrow>
      case new (CodeAssistant client) h1 of (ca, h2) \<Rightarrow>
      case new (TaskPlanner client) h2 of (pl, h3) \<Rightarrow>
      case new (APIReverseEngineer client) h3 of (ar, h4) \<Rightarrow>
      case new (SemanticIndexer client) h4 of (si, h5) \<Rightarrow>
      case new (WebNavigator client sm GetDbSessionForNavigator) h5 of (wn, h6) \<Rightarrow>
        (\<lparr>ollama_client = client, selenium_manager = sm, code_assistant = ca,
          planner = pl, api_reverse_engineer = ar, semantic_indexer = si,
          web_navigator = wn\<rparr>, h6))"

fun is_print :: "'a event \<Rightarrow> bool" where
  "is_print (Print _) = True"
| "is_print _ = False"

subsection \<open>The summarization context block, in the words of the specification\<close>

text \<open>The specification of \<open>summarize_results\<close>: keep the records whose \<open>metadata.type\<close>
  is \<open>"api_request"\<close>; number them from 1 in result order; each contributes the first 200
  characters of its text; with no such record the block is empty.\<close>

definition has_api_request_type :: "memory_record \<Rightarrow> bool" where
  "has_api_request_type m =
     (case mem_metadata m of
        None \<Rightarrow> False
      | Some md \<Rightarrow> md ''type'' = Some (PyStr ''api_request''))"

definition numbered_excerpt :: "nat \<Rightarrow> memory_record \<Rightarrow> string" where
  "numbered_excerpt n m =
     str_nat n @ ''. '' @ take 200 (case mem_text m of None \<Rightarrow> [] | Some t \<Rightarrow> t)
     @ ''...'' @ newline"

definition context_block :: "memory_record list \<Rightarrow> string" where
  "context_block memories =
     (let kept = filter has_api_request_type memories
      in if kept = [] then []
         else ''APIs discovered:'' @ newline
              @ concat (map (\<lambda>(n, m). numbered_excerpt n m) (zip [1..<Suc (length kept)] kept)))"

subsection \<open>Concrete collaborators\<close>

text \<open>Collaborators that answer every call with a fixed outcome; the world counts the
  calls made so far, and the console accepts every text.\<close>

definition scripted ::
  "exn + string \<Rightarrow> exn + unit \<Rightarrow> exn + unit \<Rightarrow> exn + memory_record list \<Rightarrow>
   exn + inference_response \<Rightarrow> (nat, unit) collaborators" where
  "scripted plan_r nav_r close_r mem_r gen_r =
     \<lparr>current_url = (\<lambda>w. None),
      page_content = (\<lambda>w. []),
      captured_apis = (\<lambda>w. []),
      create_detailed_plan = (\<lambda>g u p a w. (plan_r, w + 1)),
      navigate_and_learn = (\<lambda>g p w. (nav_r, w + 1)),
      close_browser = (\<lambda>w. (close_r, w + 1)),
      search_memory = (\<lambda>q k w. (mem_r, w + 1)),
      generate_text = (\<lambda>p m w. (gen_r, w + 1)),
      generate_code = (\<lambda>t w. (Inr t, w + 1)),
      rich_print = (\<lambda>s w. (Inr (), w))\<rparr>"

text \<open>The same collaborators with a console that rejects one given text, as rich
  rejects a text with an unmatched closing tag such as \<open>[/x]\<close>.\<close>

definition rejecting :: "string \<Rightarrow> ('w, 'a) collaborators \<Rightarrow> ('w, 'a) collaborators" where
  "rejecting bad env =
     env\<lparr>rich_print := (\<lambda>s w. if s = bad then (Inl (Exn ''MarkupError''), w)
                               else rich_print env s w)\<rparr>"

text \<open>The scenario of the specification: two API requests and one record of another
  type.\<close>

definition pricing_memories :: "memory_record list" where
  "pricing_memories =
     [\<lparr>mem_text = Some ''GET /api/prices'',
       mem_metadata = Some [''type'' \<mapsto> PyStr ''api_request'']\<rparr>,
      \<lparr>mem_text = Some ''pricing page visited'',
       mem_metadata = Some [''type'' \<mapsto> PyStr ''page_visit'']\<rparr>,
      \<lparr>mem_text = Some ''POST /api/quote'',
       mem_metadata = Some [''type'' \<mapsto> PyStr ''api_request'']\<rparr>]"

section \<open>Properties\<close>

subsection \<open>How programs compose\<close>

lemma events_return: "events (return x w) = []"
  by (simp add: events_def return_def)

lemma outcome_return: "outcome (return x w) = Inr x"
  by (simp add: outcome_def return_def)

lemma final_world_return: "final_world (return x w) = w"
  by (simp add: final_world_def return_def)

lemma events_call: "events (call ev f w) = [ev]"
  by (simp add: events_def call_def split: prod.splits)

lemma outcome_call: "outcome (call ev f w) = fst (f w)"
  by (simp add: outcome_def call_def split: prod.splits)

lemma final_world_call: "final_world (call ev f w) = snd (f w)"
  by (simp add: final_world_def call_def split: prod.splits)

lemma events_console_print: "events (console_print env s w) = [Print s]"
  by (simp add: console_print_def events_call)

lemma outcome_console_print: "outcome (console_print env s w) = fst (rich_print env s w)"
  by (simp add: console_print_def outcome_call)

lemma final_world_console_print: "final_world (console_print env s w) = snd (rich_print env s w)"
  by (simp add: console_print_def final_world_call)

lemma events_and_then:
  "events (and_then m f w) =
     events (m w) @ (case outcome (m w) of Inl e \<Rightarrow> [] | Inr x \<Rightarrow> events (f x (final_world (m w))))"
  by (simp add: events_def outcome_def final_world_def and_then_def split: prod.splits sum.splits)

lemma outcome_and_then:
  "outcome (and_then m f w) =
     (case outcome (m w) of Inl e \<Rightarrow> Inl e | Inr x \<Rightarrow> outcome (f x (final_world (m w))))"
  by (simp add: outcome_def final_world_def and_then_def split: prod.splits sum.splits)

lemma final_world_and_then:
  "final_world (and_then m f w) =
     (case outcome (m w) of Inl e \<Rightarrow> final_world (m w) | Inr x \<Rightarrow> final_world (f x (final_world (m w))))"
  by (simp add: outcome_def final_world_def and_then_def split: prod.splits sum.splits)

lemma events_try_finally:
  "events (try_finally body fin w) = events (body w) @ events (fin (final_world (body w)))"
  by (simp add: events_def final_world_def try_finally_def split: prod.splits sum.splits)

lemma outcome_try_finally:
  "outcome (try_finally body fin w) =
     (case outcome (fin (final_world (body w))) of Inl e \<Rightarrow> Inl e | Inr u \<Rightarrow> outcome (body w))"
  by (simp add: outcome_def final_world_def try_finally_def split: prod.splits sum.splits)

lemma final_world_try_finally:
  "final_world (try_finally body fin w) = final_world (fin (final_world (body w)))"
  by (simp add: final_world_def try_finally_def split: prod.splits sum.splits)

lemmas prog_simps =
  events_return outcome_return final_world_return events_call outcome_call final_world_call
  events_console_print outcome_console_print final_world_console_print
  events_and_then outcome_and_then final_world_and_then
  events_try_finally outcome_try_finally final_world_try_finally

subsection \<open>The calls of the pipeline\<close>

lemma summarize_no_close:
  "filter is_close (events (summarize_results env g w)) = []"
  by (simp add: summarize_results_def prog_simps Let_def split: sum.splits)

lemma summarize_no_executing:
  "filter is_executing (events (summarize_results env g w)) = []"
  by (simp add: summarize_results_def prog_simps Let_def split: sum.splits)

lemma summarizing_no_close:
  "filter is_close (events (summarizing env g w)) = []"
  by (simp add: summarizing_def prog_simps summarize_no_close split: sum.splits)

lemma summarizing_no_executing:
  "filter is_executing (events (summarizing env g w)) = []"
  by (simp add: summarizing_def prog_simps summarize_no_executing split: sum.splits)

lemma pipeline_no_close:
  "filter is_close (events (pipeline env g w)) = []"
  by (simp add: pipeline_def prog_simps summarizing_no_close Let_def split: sum.splits)

lemma pipeline_calls_first:
  "filter (\<lambda>ev. \<not> is_print ev) (events (pipeline env g w)) \<noteq> []"
  by (simp add: pipeline_def prog_simps Let_def)

lemma pipeline_plan_raises:
  assumes "create_detailed_plan env user_goal (current_url env w) (page_content env w)
             (captured_apis env w) w = (Inl e, w1)"
  shows "pipeline env user_goal w =
           (Inl e, w1,
            [CreateDetailedPlan user_goal (current_url env w) (page_content env w) (captured_apis env w)])"
  using assms by (simp add: pipeline_def and_then_def call_def Let_def)

lemma pipeline_navigate_raises:
  assumes "create_detailed_plan env user_goal (current_url env w) (page_content env w)
             (captured_apis env w) w = (Inr detailed_plan, w1)"
    and "rich_print env (plan_message detailed_plan) w1 = (Inr (), w1')"
    and "navigate_and_learn env user_goal detailed_plan w1' = (Inl e, w2)"
  shows "pipeline env user_goal w =
           (Inl e, w2,
            [CreateDetailedPlan user_goal (current_url env w) (page_content env w) (captured_apis env w),
             Print (plan_message detailed_plan),
             NavigateAndLearn user_goal detailed_plan])"
  using assms by (simp add: pipeline_def and_then_def call_def console_print_def Let_def)

lemma pipeline_navigate:
  assumes "create_detailed_plan env user_goal (current_url env w) (page_content env w)
             (captured_apis env w) w = (Inr detailed_plan, w1)"
    and "rich_print env (plan_message detailed_plan) w1 = (Inr (), w1')"
  shows "pipeline env user_goal w =
           (case navigate_and_learn env user_goal detailed_plan w1' of
              (Inl e, w2) \<Rightarrow>
                (Inl e, w2,
                 [CreateDetailedPlan user_goal (current_url env w) (page_content env w)
                    (captured_apis env w),
                  Print (plan_message detailed_plan),
                  NavigateAndLearn user_goal detailed_plan])
            | (Inr u, w2) \<Rightarrow>
                (outcome (summarizing env user_goal w2), final_world (summarizing env user_goal w2),
                 [CreateDetailedPlan user_goal (current_url env w) (page_content env w)
                    (captured_apis env w),
                  Print (plan_message detailed_plan),
                  NavigateAndLearn user_goal detailed_plan] @ events (summarizing env user_goal w2)))"
  using assms
  by (simp add: pipeline_def and_then_def call_def console_print_def Let_def
      outcome_def final_world_def events_def split: prod.splits sum.splits)

lemma summarize_events:
  assumes "search_memory env user_goal 10 w = (Inr memories, w1)"
  shows "events (summarize_results env user_goal w) =
           [SearchMemory user_goal 10,
            GenerateText (build_prompt user_goal (format_api_info (filter is_api_request memories)))
              ''general'']"
  using assms
  by (simp add: summarize_results_def prog_simps Let_def split: sum.splits)

text \<open>Once the first print has returned, the run is the \<open>try\<close> statement followed, if
  nothing raised, by the last print.\<close>

lemma perform_web_goal_entered:
  assumes "rich_print env (received_message user_goal) w = (Inr (), w0)"
  shows "perform_web_goal env user_goal w =
           (case pipeline env user_goal w0 of
              (r, w3, evs) \<Rightarrow>
                (case close_browser env w3 of
                   (Inl e', w4) \<Rightarrow>
                     (Inl e', w4, Print (received_message user_goal) # evs @ [CloseBrowser])
                 | (Inr u, w4) \<Rightarrow>
                     (case r of
                        Inl e \<Rightarrow>
                          (Inl e, w4, Print (received_message user_goal) # evs @ [CloseBrowser])
                      | Inr u' \<Rightarrow>
                          (case rich_print env (finished_message user_goal) w4 of
                             (p, w5) \<Rightarrow>
                               (p, w5,
                                Print (received_message user_goal) # evs
                                @ [CloseBrowser, Print (finished_message user_goal)])))))"
  using assms
  by (simp add: perform_web_goal_def and_then_def try_finally_def call_def console_print_def
      split: prod.splits sum.splits)

lemma perform_web_goal_raises:
  assumes "rich_print env (received_message user_goal) w = (Inr (), w0)"
    and "pipeline env user_goal w0 = (Inl e, w1, evs)"
  shows "perform_web_goal env user_goal w =
           (case close_browser env w1 of
              (Inl e', w2) \<Rightarrow> Inl e'
            | (Inr u, w2) \<Rightarrow> Inl e,
            snd (close_browser env w1),
            Print (received_message user_goal) # evs @ [CloseBrowser])"
  using assms
  by (simp add: perform_web_goal_entered split: prod.splits sum.splits)

subsection \<open>The context block in closed form\<close>

lemma is_api_request_iff: "is_api_request m = has_api_request_type m"
  by (auto simp: is_api_request_def has_api_request_type_def Let_def split: option.splits)

lemma api_info_loop_closed:
  "api_info_loop i rs acc =
     acc @ concat (map (\<lambda>(n, m). numbered_excerpt n m) (zip [Suc i..<Suc (i + length rs)] rs))"
proof (induction rs arbitrary: i acc)
  case Nil
  then show ?case by simp
next
  case (Cons r rs)
  have "[Suc i..<Suc (i + length (r # rs))] = Suc i # [Suc (Suc i)..<Suc (Suc i + length rs)]"
    by (subst upt_conv_Cons) auto
  then show ?case
    using Cons.IH [of "Suc i"] by (simp add: numbered_excerpt_def excerpt_def)
qed

lemma format_api_info_closed:
  "format_api_info (filter is_api_request memories) = context_block memories"
proof -
  have "is_api_request = has_api_request_type"
    by (rule ext) (rule is_api_request_iff)
  then have "filter is_api_request memories = filter has_api_request_type memories"
    by simp
  then show ?thesis
    by (simp add: format_api_info_def context_block_def Let_def api_info_loop_closed)
qed

lemma context_block_pricing:
  "context_block pricing_memories =
     ''APIs discovered:'' @ newline @ ''1. GET /api/prices...'' @ newline
     @ ''2. POST /api/quote...'' @ newline"
  by (simp add: context_block_def pricing_memories_def has_api_request_type_def
      numbered_excerpt_def str_nat.simps upt_rec)

subsection \<open>Records typed as in the specification, as Python values\<close>

text \<open>On the dictionary of a typed record, lines 106 to 113 raise nothing and compute what
  \<open>summarize_results\<close> uses.\<close>

lemma raw_is_api_request_to_py: "raw_is_api_request (to_py m) = Inr (is_api_request m)"
  by (simp add: raw_is_api_request_def to_py_def is_api_request_def Let_def split: option.splits)

lemma raw_excerpt_to_py: "raw_excerpt (to_py m) = Inr (excerpt m)"
  by (simp add: raw_excerpt_def to_py_def excerpt_def split: option.splits)

lemma raw_api_memories_to_py:
  "raw_api_memories (map to_py memories) = Inr (map to_py (filter is_api_request memories))"
  by (induction memories) (simp_all add: raw_is_api_request_to_py)

lemma raw_api_info_loop_to_py:
  "raw_api_info_loop i (map to_py apis) acc = Inr (api_info_loop i apis acc)"
  by (induction apis arbitrary: i acc) (simp_all add: raw_excerpt_to_py)

lemma raw_format_api_info_to_py:
  "raw_format_api_info (map to_py apis) = Inr (format_api_info apis)"
  by (simp add: raw_format_api_info_def format_api_info_def raw_api_info_loop_to_py)

lemma raw_api_info_to_py:
  "raw_api_info (map to_py memories) = Inr (format_api_info (filter is_api_request memories))"
  by (simp add: raw_api_info_def raw_api_memories_to_py raw_format_api_info_to_py)

lemma raw_api_memories_skip:
  assumes "raw_is_api_request m = Inr False"
  shows "raw_api_memories (xs @ m # ys) = raw_api_memories (xs @ ys)"
  using assms by (induction xs) (simp_all split: sum.splits)

subsection \<open>Cleanup\<close>

text \<open>C1: every invocation should call \<open>close_browser\<close> exactly once, and the comment
  in the \<open>finally\<close> suite says the browser is always closed. The code misses one path: the
  first print (line 63) stands before the \<open>try\<close> statement. When the console rejects the
  text, here for the goal \<open>[/x]\<close>, the run ends with that error and \<open>close_browser\<close> is
  never called.\<close>

theorem announcement_failure_skips_cleanup:
  "rich_print (rejecting (received_message ''[/x]'')
       (scripted (Inr ''plan'') (Inr ()) (Inr ()) (Inr []) (Inr \<lparr>response = None\<rparr>)))
     (received_message ''[/x]'') 0 = (Inl (Exn ''MarkupError''), 0)
   \<and> outcome (perform_web_goal (rejecting (received_message ''[/x]'')
       (scripted (Inr ''plan'') (Inr ()) (Inr ()) (Inr []) (Inr \<lparr>response = None\<rparr>))) ''[/x]'' 0)
     = Inl (Exn ''MarkupError'')
   \<and> filter is_close (events (perform_web_goal (rejecting (received_message ''[/x]'')
       (scripted (Inr ''plan'') (Inr ()) (Inr ()) (Inr []) (Inr \<lparr>response = None\<rparr>))) ''[/x]'' 0))
     = []"
  by (simp add: perform_web_goal_def prog_simps rejecting_def scripted_def)

text \<open>What the \<open>try\<close> statement does guarantee: once the first print has returned, every
  run of \<open>perform_web_goal\<close> calls \<open>close_browser\<close> exactly once, whatever the planning, executing and summarizing
  steps do (return or raise); it is the last call other than a print; it is applied to the
  world the \<open>try\<close> suite left, and the run ends in the world and with the outcome that
  this call, and the last print after it if nothing raised, produce.\<close>

theorem cleanup_once_entered:
  assumes "rich_print env (received_message user_goal) w = (Inr (), w0)"
  shows "length (filter is_close (events (perform_web_goal env user_goal w))) = 1
   \<and> last (filter (\<lambda>ev. \<not> is_print ev) (events (perform_web_goal env user_goal w))) = CloseBrowser
   \<and> outcome (perform_web_goal env user_goal w) =
       (case fst (close_browser env (final_world (pipeline env user_goal w0))) of
          Inl e' \<Rightarrow> Inl e'
        | Inr u \<Rightarrow>
            (case outcome (pipeline env user_goal w0) of
               Inl e \<Rightarrow> Inl e
             | Inr u' \<Rightarrow>
                 fst (rich_print env (finished_message user_goal)
                        (snd (close_browser env (final_world (pipeline env user_goal w0)))))))
   \<and> final_world (perform_web_goal env user_goal w) =
       (if fst (close_browser env (final_world (pipeline env user_goal w0))) = Inr ()
           \<and> outcome (pipeline env user_goal w0) = Inr ()
        then snd (rich_print env (finished_message user_goal)
                    (snd (close_browser env (final_world (pipeline env user_goal w0)))))
        else snd (close_browser env (final_world (pipeline env user_goal w0))))"
proof -
  obtain r w3 evs where p: "pipeline env user_goal w0 = (r, w3, evs)"
    by (cases "pipeline env user_goal w0") auto
  obtain c w4 where c: "close_browser env w3 = (c, w4)"
    by (cases "close_browser env w3") auto
  obtain q w5 where q: "rich_print env (finished_message user_goal) w4 = (q, w5)"
    by (cases "rich_print env (finished_message user_goal) w4") auto
  have n: "filter is_close evs = []"
    using pipeline_no_close [of env user_goal w0] by (simp add: p events_def)
  have f: "filter (\<lambda>ev. \<not> is_print ev) evs \<noteq> []"
    using pipeline_calls_first [of env user_goal w0] by (simp add: p events_def)
  show ?thesis
    using n f
    by (cases c; cases r)
       (simp_all add: perform_web_goal_entered [OF assms] p c q outcome_def final_world_def events_def)
qed

theorem cleanup_once_entered_witness:
  "rich_print (scripted (Inr ''plan'') (Inl (Exn ''navigation failed'')) (Inr ()) (Inr [])
       (Inr \<lparr>response = None\<rparr>)) (received_message ''g'') 0 = (Inr (), 0)
   \<and> length (filter is_close (events (perform_web_goal
       (scripted (Inr ''plan'') (Inl (Exn ''navigation failed'')) (Inr ()) (Inr [])
          (Inr \<lparr>response = None\<rparr>)) ''g'' 0))) = 1"
proof -
  let ?env = "scripted (Inr ''plan'') (Inl (Exn ''navigation failed'')) (Inr ()) (Inr [])
       (Inr \<lparr>response = None\<rparr>)"
  have h: "rich_print ?env (received_message ''g'') 0 = (Inr (), 0)"
    by (simp add: scripted_def)
  show ?thesis
    using h conjunct1 [OF cleanup_once_entered [OF h]] by simp
qed

text \<open>C2, as stated, fails: when planning raises and \<open>close_browser\<close> raises too, the
  caller sees the error of \<open>close_browser\<close>, because an exception raised in a
  \<open>finally\<close> suite replaces the one in flight.\<close>

theorem cleanup_error_masks_original:
  "outcome (pipeline (scripted (Inl (Exn ''planning failed'')) (Inr ()) (Inl (Exn ''close failed'')) (Inr []) (Inr \<lparr>response = None\<rparr>)) ''g'' 0)
     = Inl (Exn ''planning failed'')
   \<and> outcome (perform_web_goal (scripted (Inl (Exn ''planning failed'')) (Inr ()) (Inl (Exn ''close failed'')) (Inr []) (Inr \<lparr>response = None\<rparr>)) ''g'' 0)
     = Inl (Exn ''close failed'')"
  by (simp add: perform_web_goal_def pipeline_def prog_simps scripted_def Let_def)

text \<open>C2, amended: when the suite of the \<open>try\<close> statement (planning, executing,
  summarizing) raises \<open>e\<close>, the caller sees \<open>e\<close> if \<open>close_browser\<close> returns, and the
  error of \<open>close_browser\<close> if that call raises. The suite is entered once the first print
  has returned.\<close>

theorem original_error_unless_cleanup_raises:
  assumes "rich_print env (received_message user_goal) w = (Inr (), w0)"
    and "outcome (pipeline env user_goal w0) = Inl e"
  shows "outcome (perform_web_goal env user_goal w) =
           (case fst (close_browser env (final_world (pipeline env user_goal w0))) of
              Inl e' \<Rightarrow> Inl e'
            | Inr u \<Rightarrow> Inl e)"
  using assms by (simp add: perform_web_goal_def prog_simps split: sum.splits)

theorem original_error_unless_cleanup_raises_witness:
  "outcome (pipeline (scripted (Inl (Exn ''planning failed'')) (Inr ()) (Inr ()) (Inr []) (Inr \<lparr>response = None\<rparr>)) ''g'' 0)
     = Inl (Exn ''planning failed'')
   \<and> outcome (perform_web_goal (scripted (Inl (Exn ''planning failed'')) (Inr ()) (Inr ()) (Inr []) (Inr \<lparr>response = None\<rparr>)) ''g'' 0)
     = Inl (Exn ''planning failed'')"
proof -
  let ?env = "scripted (Inl (Exn ''planning failed'')) (Inr ()) (Inr ()) (Inr []) (Inr \<lparr>response = None\<rparr>)"
  have p: "rich_print ?env (received_message ''g'') 0 = (Inr (), 0)"
    by (simp add: scripted_def)
  have h: "outcome (pipeline ?env ''g'' 0) = Inl (Exn ''planning failed'')"
    by (simp add: pipeline_def prog_simps scripted_def Let_def)
  have c: "fst (close_browser ?env (final_world (pipeline ?env ''g'' 0))) = Inr ()"
    by (simp add: scripted_def)
  show ?thesis
    using h original_error_unless_cleanup_raises [OF p h] c by simp
qed

subsection \<open>Sequencing\<close>

text \<open>C3: the steps run in order and fail fast. If \<open>create_detailed_plan\<close> raises, the run
  makes no \<open>navigate_and_learn\<close> call and none of the calls of \<open>summarize_results\<close>; if
  \<open>navigate_and_learn\<close> raises, it makes none of the calls of \<open>summarize_results\<close>. In
  both cases the log is given in full. That a call is reached means the prints before it
  have returned.\<close>

theorem fail_fast:
  "(rich_print env (received_message user_goal) w = (Inr (), w0)
    \<and> create_detailed_plan env user_goal (current_url env w0) (page_content env w0)
        (captured_apis env w0) w0 = (Inl e, w1) \<longrightarrow>
      events (perform_web_goal env user_goal w) =
        [Print (received_message user_goal),
         CreateDetailedPlan user_goal (current_url env w0) (page_content env w0) (captured_apis env w0),
         CloseBrowser]
      \<and> filter is_executing (events (perform_web_goal env user_goal w)) = []
      \<and> filter is_summarizing (events (perform_web_goal env user_goal w)) = [])
   \<and> (rich_print env (received_message user_goal) w = (Inr (), w0)
       \<and> create_detailed_plan env user_goal (current_url env w0) (page_content env w0)
           (captured_apis env w0) w0 = (Inr detailed_plan, w1)
       \<and> rich_print env (plan_message detailed_plan) w1 = (Inr (), w1')
       \<and> navigate_and_learn env user_goal detailed_plan w1' = (Inl e, w2) \<longrightarrow>
      events (perform_web_goal env user_goal w) =
        [Print (received_message user_goal),
         CreateDetailedPlan user_goal (current_url env w0) (page_content env w0) (captured_apis env w0),
         Print (plan_message detailed_plan),
         NavigateAndLearn user_goal detailed_plan,
         CloseBrowser]
      \<and> filter is_summarizing (events (perform_web_goal env user_goal w)) = [])"
proof (rule conjI; rule impI)
  assume a: "rich_print env (received_message user_goal) w = (Inr (), w0)
    \<and> create_detailed_plan env user_goal (current_url env w0) (page_content env w0)
        (captured_apis env w0) w0 = (Inl e, w1)"
  then have a1: "rich_print env (received_message user_goal) w = (Inr (), w0)"
    and a2: "create_detailed_plan env user_goal (current_url env w0) (page_content env w0)
        (captured_apis env w0) w0 = (Inl e, w1)"
    by simp_all
  show "events (perform_web_goal env user_goal w) =
        [Print (received_message user_goal),
         CreateDetailedPlan user_goal (current_url env w0) (page_content env w0) (captured_apis env w0),
         CloseBrowser]
      \<and> filter is_executing (events (perform_web_goal env user_goal w)) = []
      \<and> filter is_summarizing (events (perform_web_goal env user_goal w)) = []"
    by (simp add: perform_web_goal_raises [OF a1 pipeline_plan_raises [OF a2]] events_def)
next
  assume b: "rich_print env (received_message user_goal) w = (Inr (), w0)
       \<and> create_detailed_plan env user_goal (current_url env w0) (page_content env w0)
           (captured_apis env w0) w0 = (Inr detailed_plan, w1)
       \<and> rich_print env (plan_message detailed_plan) w1 = (Inr (), w1')
       \<and> navigate_and_learn env user_goal detailed_plan w1' = (Inl e, w2)"
  then have b1: "rich_print env (received_message user_goal) w = (Inr (), w0)"
    and b2: "create_detailed_plan env user_goal (current_url env w0) (page_content env w0)
           (captured_apis env w0) w0 = (Inr detailed_plan, w1)"
    and b3: "rich_print env (plan_message detailed_plan) w1 = (Inr (), w1')"
    and b4: "navigate_and_learn env user_goal detailed_plan w1' = (Inl e, w2)"
    by simp_all
  show "events (perform_web_goal env user_goal w) =
        [Print (received_message user_goal),
         CreateDetailedPlan user_goal (current_url env w0) (page_content env w0) (captured_apis env w0),
         Print (plan_message detailed_plan),
         NavigateAndLearn user_goal detailed_plan,
         CloseBrowser]
      \<and> filter is_summarizing (events (perform_web_goal env user_goal w)) = []"
    by (simp add: perform_web_goal_raises [OF b1 pipeline_navigate_raises [OF b2 b3 b4]] events_def)
qed

theorem fail_fast_witness:
  "create_detailed_plan (scripted (Inl (Exn ''planning failed'')) (Inr ()) (Inr ()) (Inr []) (Inr \<lparr>response = None\<rparr>))
      ''g'' None [] [] 0 = (Inl (Exn ''planning failed''), 1)
   \<and> filter is_executing (events (perform_web_goal
        (scripted (Inl (Exn ''planning failed'')) (Inr ()) (Inr ()) (Inr []) (Inr \<lparr>response = None\<rparr>)) ''g'' 0)) = []
   \<and> filter is_summarizing (events (perform_web_goal
        (scripted (Inl (Exn ''planning failed'')) (Inr ()) (Inr ()) (Inr []) (Inr \<lparr>response = None\<rparr>)) ''g'' 0)) = []
   \<and> navigate_and_learn (scripted (Inr ''plan'') (Inl (Exn ''navigation failed'')) (Inr ()) (Inr []) (Inr \<lparr>response = None\<rparr>))
        ''g'' ''plan'' 1 = (Inl (Exn ''navigation failed''), 2)
   \<and> filter is_summarizing (events (perform_web_goal
        (scripted (Inr ''plan'') (Inl (Exn ''navigation failed'')) (Inr ()) (Inr []) (Inr \<lparr>response = None\<rparr>)) ''g'' 0)) = []"
proof -
  let ?env1 = "scripted (Inl (Exn ''planning failed'')) (Inr ()) (Inr ()) (Inr []) (Inr \<lparr>response = None\<rparr>)"
  let ?env2 = "scripted (Inr ''plan'') (Inl (Exn ''navigation failed'')) (Inr ()) (Inr []) (Inr \<lparr>response = None\<rparr>)"
  have h1: "rich_print ?env1 (received_message ''g'') 0 = (Inr (), 0)
            \<and> create_detailed_plan ?env1 ''g'' (current_url ?env1 0) (page_content ?env1 0)
              (captured_apis ?env1 0) 0 = (Inl (Exn ''planning failed''), 1)"
    by (simp add: scripted_def)
  have h2: "rich_print ?env2 (received_message ''g'') 0 = (Inr (), 0)
            \<and> create_detailed_plan ?env2 ''g'' (current_url ?env2 0) (page_content ?env2 0)
              (captured_apis ?env2 0) 0 = (Inr ''plan'', 1)
            \<and> rich_print ?env2 (plan_message ''plan'') 1 = (Inr (), 1)
            \<and> navigate_and_learn ?env2 ''g'' ''plan'' 1 = (Inl (Exn ''navigation failed''), 2)"
    by (simp add: scripted_def)
  note c1 = conjunct1 [OF fail_fast, THEN mp, OF h1]
  note c2 = conjunct2 [OF fail_fast, THEN mp, OF h2]
  have a1: "create_detailed_plan ?env1 ''g'' None [] [] 0 = (Inl (Exn ''planning failed''), 1)"
    by (simp add: scripted_def)
  show ?thesis
    using a1 c1 c2 h2 by simp
qed




text \<open>C9: in a run that gets from planning to executing (the plan is returned and its
  print returns), \<open>navigate_and_learn\<close> is called exactly once, with the goal and the very
  plan \<open>create_detailed_plan\<close> returned, in the world the print of the plan left; what that
  call returns or raises, and the world it leaves, decide how the run goes on.\<close>

theorem plan_passed_unmodified:
  assumes "rich_print env (received_message user_goal) w = (Inr (), w0)"
    and "create_detailed_plan env user_goal (current_url env w0) (page_content env w0)
           (captured_apis env w0) w0 = (Inr detailed_plan, w1)"
    and "rich_print env (plan_message detailed_plan) w1 = (Inr (), w1')"
  shows "filter is_executing (events (perform_web_goal env user_goal w)) =
           [NavigateAndLearn user_goal detailed_plan]
         \<and> take 4 (events (perform_web_goal env user_goal w)) =
           [Print (received_message user_goal),
            CreateDetailedPlan user_goal (current_url env w0) (page_content env w0)
              (captured_apis env w0),
            Print (plan_message detailed_plan),
            NavigateAndLearn user_goal detailed_plan]
         \<and> final_world (perform_web_goal env user_goal w) =
           (case navigate_and_learn env user_goal detailed_plan w1' of
              (Inl e, w2) \<Rightarrow> snd (close_browser env w2)
            | (Inr u, w2) \<Rightarrow>
                (if fst (close_browser env (final_world (summarizing env user_goal w2))) = Inr ()
                    \<and> outcome (summarizing env user_goal w2) = Inr ()
                 then snd (rich_print env (finished_message user_goal)
                        (snd (close_browser env (final_world (summarizing env user_goal w2)))))
                 else snd (close_browser env (final_world (summarizing env user_goal w2)))))
         \<and> outcome (perform_web_goal env user_goal w) =
           (case navigate_and_learn env user_goal detailed_plan w1' of
              (Inl e, w2) \<Rightarrow>
                (case fst (close_browser env w2) of Inl e' \<Rightarrow> Inl e' | Inr u \<Rightarrow> Inl e)
            | (Inr u, w2) \<Rightarrow>
                (case fst (close_browser env (final_world (summarizing env user_goal w2))) of
                   Inl e' \<Rightarrow> Inl e'
                 | Inr u' \<Rightarrow>
                     (case outcome (summarizing env user_goal w2) of
                        Inl e \<Rightarrow> Inl e
                      | Inr u'' \<Rightarrow>
                          fst (rich_print env (finished_message user_goal)
                                 (snd (close_browser env
                                         (final_world (summarizing env user_goal w2))))))))"
proof -
  obtain n w2 where nav: "navigate_and_learn env user_goal detailed_plan w1' = (n, w2)"
    by (cases "navigate_and_learn env user_goal detailed_plan w1'") auto
  obtain s w3 evs where sm: "summarizing env user_goal w2 = (s, w3, evs)"
    by (cases "summarizing env user_goal w2") auto
  have ne: "filter is_executing evs = []"
    using summarizing_no_executing [of env user_goal w2] by (simp add: sm events_def)
  obtain c w4 where c: "close_browser env w2 = (c, w4)"
    by (cases "close_browser env w2") auto
  obtain c' w4' where c': "close_browser env w3 = (c', w4')"
    by (cases "close_browser env w3") auto
  obtain q w5 where q: "rich_print env (finished_message user_goal) w4' = (q, w5)"
    by (cases "rich_print env (finished_message user_goal) w4'") auto
  note pl = pipeline_navigate [OF assms(2) assms(3)]
  show ?thesis
    using ne
    by (cases n; cases c; cases c'; cases s)
       (simp_all add: perform_web_goal_entered [OF assms(1)] pl nav sm c c' q
          outcome_def final_world_def events_def)
qed

theorem plan_passed_unmodified_witness:
  "create_detailed_plan (scripted (Inr ''plan'') (Inr ()) (Inr ()) (Inr []) (Inr \<lparr>response = None\<rparr>))
      ''g'' None [] [] 0 = (Inr ''plan'', 1)
   \<and> filter is_executing (events (perform_web_goal
        (scripted (Inr ''plan'') (Inr ()) (Inr ()) (Inr []) (Inr \<lparr>response = None\<rparr>)) ''g'' 0))
       = [NavigateAndLearn ''g'' ''plan'']"
proof -
  let ?env = "scripted (Inr ''plan'') (Inr ()) (Inr ()) (Inr []) (Inr \<lparr>response = None\<rparr>)"
  have p: "rich_print ?env (received_message ''g'') 0 = (Inr (), 0)"
    by (simp add: scripted_def)
  have h: "create_detailed_plan ?env ''g'' (current_url ?env 0) (page_content ?env 0)
             (captured_apis ?env 0) 0 = (Inr ''plan'', 1)"
    by (simp add: scripted_def)
  have q: "rich_print ?env (plan_message ''plan'') 1 = (Inr (), 1)"
    by (simp add: scripted_def)
  have a: "create_detailed_plan ?env ''g'' None [] [] 0 = (Inr ''plan'', 1)"
    by (simp add: scripted_def)
  show ?thesis
    using a conjunct1 [OF plan_passed_unmodified [OF p h q]] by simp
qed

subsection \<open>Summarization\<close>

text \<open>C5: whatever records the memory search returns (the empty list included),
  \<open>summarize_results\<close> returns a string once the text generation has answered: the fixed
  text \<open>No summary available.\<close> when the answer has no \<open>response\<close> key, and the value of
  that key, unchanged, when it has one.\<close>

theorem summarize_returns_text:
  assumes "search_memory env user_goal 10 w = (Inr memories, w1)"
    and "generate_text env (build_prompt user_goal (format_api_info (filter is_api_request memories)))
           ''general'' w1 = (Inr resp, w2)"
  shows "outcome (summarize_results env user_goal w) =
           Inr (case response resp of None \<Rightarrow> ''No summary available.'' | Some t \<Rightarrow> t)"
  using assms
  by (simp add: summarize_results_def prog_simps Let_def outcome_return)

theorem summarize_returns_text_witness:
  "search_memory (scripted (Inr ''plan'') (Inr ()) (Inr ()) (Inr []) (Inr \<lparr>response = None\<rparr>))
      ''g'' 10 0 = (Inr [], 1)
   \<and> outcome (summarize_results
        (scripted (Inr ''plan'') (Inr ()) (Inr ()) (Inr []) (Inr \<lparr>response = None\<rparr>)) ''g'' 0)
       = Inr ''No summary available.''
   \<and> outcome (summarize_results
        (scripted (Inr ''plan'') (Inr ()) (Inr ()) (Inr []) (Inr \<lparr>response = Some ''done''\<rparr>)) ''g'' 0)
       = Inr ''done''"
proof -
  let ?env1 = "scripted (Inr ''plan'') (Inr ()) (Inr ()) (Inr []) (Inr \<lparr>response = None\<rparr>)"
  let ?env2 = "scripted (Inr ''plan'') (Inr ()) (Inr ()) (Inr []) (Inr \<lparr>response = Some ''done''\<rparr>)"
  have s1: "search_memory ?env1 ''g'' 10 0 = (Inr [], 1)"
    by (simp add: scripted_def)
  have g1: "generate_text ?env1 (build_prompt ''g'' (format_api_info (filter is_api_request [])))
              ''general'' 1 = (Inr \<lparr>response = None\<rparr>, 2)"
    by (simp add: scripted_def)
  have s2: "search_memory ?env2 ''g'' 10 0 = (Inr [], 1)"
    by (simp add: scripted_def)
  have g2: "generate_text ?env2 (build_prompt ''g'' (format_api_info (filter is_api_request [])))
              ''general'' 1 = (Inr \<lparr>response = Some ''done''\<rparr>, 2)"
    by (simp add: scripted_def)
  show ?thesis
    using s1 summarize_returns_text [OF s1 g1] summarize_returns_text [OF s2 g2] by simp
qed

text \<open>C6: \<open>summarize_results\<close> searches the memory with the goal and \<open>top_k = 10\<close>, and the
  prompt it sends under the model role \<open>general\<close> holds the context block of the
  specification: the records of type \<open>api_request\<close>, in result order, numbered from 1, each
  with the first 200 characters of its text; the block is empty when no record is kept.\<close>

theorem summarize_context_block:
  assumes "search_memory env user_goal 10 w = (Inr memories, w1)"
  shows "events (summarize_results env user_goal w) =
           [SearchMemory user_goal 10,
            GenerateText (build_prompt user_goal (context_block memories)) ''general'']
         \<and> (filter has_api_request_type memories = [] \<longrightarrow> context_block memories = [])"
proof
  show "events (summarize_results env user_goal w) =
           [SearchMemory user_goal 10,
            GenerateText (build_prompt user_goal (context_block memories)) ''general'']"
    using summarize_events [OF assms] by (simp only: format_api_info_closed)
  show "filter has_api_request_type memories = [] \<longrightarrow> context_block memories = []"
    by (simp add: context_block_def)
qed

theorem summarize_context_block_witness:
  "search_memory (scripted (Inr ''plan'') (Inr ()) (Inr ()) (Inr pricing_memories) (Inr \<lparr>response = None\<rparr>))
      ''find the pricing API'' 10 0 = (Inr pricing_memories, 1)
   \<and> events (summarize_results
        (scripted (Inr ''plan'') (Inr ()) (Inr ()) (Inr pricing_memories) (Inr \<lparr>response = None\<rparr>))
        ''find the pricing API'' 0)
       = [SearchMemory ''find the pricing API'' 10,
          GenerateText (build_prompt ''find the pricing API''
             (''APIs discovered:'' @ newline @ ''1. GET /api/prices...'' @ newline
              @ ''2. POST /api/quote...'' @ newline)) ''general'']
   \<and> filter has_api_request_type [] = []
   \<and> context_block [] = []"
proof -
  let ?env = "scripted (Inr ''plan'') (Inr ()) (Inr ()) (Inr pricing_memories) (Inr \<lparr>response = None\<rparr>)"
  let ?none = "scripted (Inr ''plan'') (Inr ()) (Inr ()) (Inr []) (Inr \<lparr>response = None\<rparr>)"
  have s: "search_memory ?env ''find the pricing API'' 10 0 = (Inr pricing_memories, 1)"
    by (simp add: scripted_def)
  have s0: "search_memory ?none ''g'' 10 0 = (Inr [], 1)"
    by (simp add: scripted_def)
  have e: "filter has_api_request_type [] = []"
    by simp
  note c = conjunct1 [OF summarize_context_block [OF s]]
  note c0 = conjunct2 [OF summarize_context_block [OF s0], THEN mp, OF e]
  show ?thesis
    using s c c0 by (simp only: context_block_pricing filter.simps simp_thms)
qed

text \<open>C10, as stated, fails: a record whose \<open>metadata\<close> key holds \<open>None\<close> has no
  metadata mapping, and for it line 106 raises \<open>AttributeError\<close> instead of leaving the
  record out.\<close>

theorem metadata_none_raises:
  "raw_is_api_request (PyDict [''text'' \<mapsto> PyStr ''GET /api/prices'', ''metadata'' \<mapsto> PyNone])
     = Inl (Exn ''AttributeError'')
   \<and> raw_api_info [PyDict [''text'' \<mapsto> PyStr ''GET /api/prices'', ''metadata'' \<mapsto> PyNone]]
     = Inl (Exn ''AttributeError'')"
  by (simp add: raw_api_info_def raw_is_api_request_def)

text \<open>C10, amended: absent keys are tolerated. A record without a \<open>metadata\<close> key, or
  whose metadata is a mapping without a \<open>type\<close> key, fails the test without raising and
  leaves \<open>api_info\<close> as it would be without the record; a kept record without a \<open>text\<close>
  key contributes the empty excerpt; and for records typed as in the specification
  \<open>summarize_results\<close> sends the \<open>api_info\<close> these lines compute.\<close>

theorem absent_keys_tolerated:
  "(d ''metadata'' = None \<or> (\<exists>md. d ''metadata'' = Some (PyDict md) \<and> md ''type'' = None) \<longrightarrow>
      raw_is_api_request (PyDict d) = Inr False
      \<and> raw_api_info (xs @ PyDict d # ys) = raw_api_info (xs @ ys))
   \<and> (raw_is_api_request (PyDict a) = Inr True \<and> a ''text'' = None \<longrightarrow>
      raw_excerpt (PyDict a) = Inr []
      \<and> raw_api_info_loop i (PyDict a # rest) acc =
          raw_api_info_loop (i + 1) rest (acc @ str_nat (i + 1) @ ''. ...'' @ newline))
   \<and> (search_memory env user_goal 10 w = (Inr memories, w1)
       \<and> raw_api_info (map to_py memories) = Inr api_info \<longrightarrow>
      events (summarize_results env user_goal w) =
        [SearchMemory user_goal 10, GenerateText (build_prompt user_goal api_info) ''general''])"
proof (intro conjI impI)
  assume "d ''metadata'' = None \<or> (\<exists>md. d ''metadata'' = Some (PyDict md) \<and> md ''type'' = None)"
  then show n: "raw_is_api_request (PyDict d) = Inr False"
    by (auto simp: raw_is_api_request_def)
  show "raw_api_info (xs @ PyDict d # ys) = raw_api_info (xs @ ys)"
    by (simp add: raw_api_info_def raw_api_memories_skip [OF n])
next
  assume b: "raw_is_api_request (PyDict a) = Inr True \<and> a ''text'' = None"
  then show e: "raw_excerpt (PyDict a) = Inr []"
    by (simp add: raw_excerpt_def)
  show "raw_api_info_loop i (PyDict a # rest) acc =
          raw_api_info_loop (i + 1) rest (acc @ str_nat (i + 1) @ ''. ...'' @ newline)"
    by (simp add: e)
next
  assume c: "search_memory env user_goal 10 w = (Inr memories, w1)
       \<and> raw_api_info (map to_py memories) = Inr api_info"
  then have "api_info = format_api_info (filter is_api_request memories)"
    by (simp add: raw_api_info_to_py)
  then show "events (summarize_results env user_goal w) =
        [SearchMemory user_goal 10, GenerateText (build_prompt user_goal api_info) ''general'']"
    using summarize_events [OF conjunct1 [OF c]] by simp
qed

theorem absent_keys_tolerated_witness:
  "raw_is_api_request (PyDict [''text'' \<mapsto> PyStr ''x'']) = Inr False
   \<and> raw_api_info [PyDict [''text'' \<mapsto> PyStr ''x'']] = raw_api_info []
   \<and> raw_is_api_request (PyDict [''metadata'' \<mapsto> PyDict [''type'' \<mapsto> PyStr ''api_request'']])
       = Inr True
   \<and> raw_excerpt (PyDict [''metadata'' \<mapsto> PyDict [''type'' \<mapsto> PyStr ''api_request'']]) = Inr []
   \<and> raw_api_info (map to_py [\<lparr>mem_text = Some ''x'', mem_metadata = None\<rparr>]) = Inr []
   \<and> events (summarize_results
        (scripted (Inr ''plan'') (Inr ()) (Inr ())
           (Inr [\<lparr>mem_text = Some ''x'', mem_metadata = None\<rparr>]) (Inr \<lparr>response = None\<rparr>)) ''g'' 0)
       = [SearchMemory ''g'' 10, GenerateText (build_prompt ''g'' []) ''general'']"
proof -
  let ?ms = "[\<lparr>mem_text = Some ''x'', mem_metadata = None\<rparr>]"
  let ?env = "scripted (Inr ''plan'') (Inr ()) (Inr ()) (Inr ?ms) (Inr \<lparr>response = None\<rparr>)"
  have r: "raw_api_info (map to_py ?ms) = Inr []"
    by (simp add: raw_api_info_def raw_is_api_request_def to_py_def raw_format_api_info_def)
  have h3: "search_memory ?env ''g'' 10 0 = (Inr ?ms, 1) \<and> raw_api_info (map to_py ?ms) = Inr []"
    using r by (simp add: scripted_def)
  let ?d = "[''text'' \<mapsto> PyStr ''x'']"
  let ?a = "[''metadata'' \<mapsto> PyDict [''type'' \<mapsto> PyStr ''api_request'']]"
  have h1: "?d ''metadata'' = None \<or> (\<exists>md. ?d ''metadata'' = Some (PyDict md) \<and> md ''type'' = None)"
    by simp
  have h2: "raw_is_api_request (PyDict ?a) = Inr True \<and> ?a ''text'' = None"
    by (simp add: raw_is_api_request_def)
  note t = absent_keys_tolerated [of ?d "[]" "[]" ?a]
  note c1 = conjunct1 [OF t, THEN mp, OF h1]
  note c2 = conjunct1 [OF conjunct2 [OF t], THEN mp, OF h2]
  note c3 = conjunct2 [OF conjunct2 [OF t], THEN mp, OF h3]
  show ?thesis
    using h2 r c1 c2 c3 by simp
qed

subsection \<open>Pass-through search\<close>

text \<open>C7: \<open>api_search\<close> makes one call, \<open>search_memory\<close> with the query and \<open>top_k = 5\<close>,
  and its result (the records returned or the exception raised) and the world it leaves
  are those of that call.\<close>

theorem api_search_delegates:
  "events (api_search env query w) = [SearchMemory query 5]
   \<and> outcome (api_search env query w) = fst (search_memory env query 5 w)
   \<and> final_world (api_search env query w) = snd (search_memory env query 5 w)"
  by (simp add: api_search_def prog_simps)

subsection \<open>Construction\<close>

text \<open>C8: without a manager argument the constructor allocates one
  \<open>SeleniumManager\<close> with \<open>headless = False\<close> and keeps its address; with a manager
  argument it keeps that address and allocates no manager. In both cases the objects that
  existed before are untouched, and the single web navigator it allocates is given the
  address the engine keeps in \<open>selenium_manager\<close>.\<close>

theorem init_browser_manager:
  "(sm_arg = None \<longrightarrow>
      selenium_manager (fst (init client sm_arg h)) = length h
      \<and> snd (init client sm_arg h) ! length h = SeleniumManager False
      \<and> filter is_selenium_manager (drop (length h) (snd (init client sm_arg h)))
          = [SeleniumManager False])
   \<and> (sm_arg = Some r \<longrightarrow>
      selenium_manager (fst (init client sm_arg h)) = r
      \<and> filter is_selenium_manager (drop (length h) (snd (init client sm_arg h))) = [])
   \<and> take (length h) (snd (init client sm_arg h)) = h
   \<and> snd (init client sm_arg h) ! web_navigator (fst (init client sm_arg h))
        = WebNavigator client (selenium_manager (fst (init client sm_arg h))) GetDbSessionForNavigator
   \<and> filter is_web_navigator (drop (length h) (snd (init client sm_arg h)))
        = [WebNavigator client (selenium_manager (fst (init client sm_arg h))) GetDbSessionForNavigator]"
  by (cases sm_arg) (simp_all add: init_def new_def nth_append)

theorem init_browser_manager_witness:
  "selenium_manager (fst (init 0 None [])) = 0
   \<and> snd (init 0 None []) ! 0 = SeleniumManager False
   \<and> selenium_manager (fst (init 0 (Some 0) [SeleniumManager True])) = 0
   \<and> filter is_selenium_manager (drop 1 (snd (init 0 (Some 0) [SeleniumManager True]))) = []
   \<and> snd (init 0 (Some 0) [SeleniumManager True])
        ! web_navigator (fst (init 0 (Some 0) [SeleniumManager True]))
        = WebNavigator 0 0 GetDbSessionForNavigator"
  using init_browser_manager [of None 0 "[]"]
    init_browser_manager [of "Some 0" 0 "[SeleniumManager True]" 0]
  by simp

end
